theory Spec2Isabelle
  imports Complex_Main "HOL-Library.Word"
begin

section \<open>Image comparison (image\_comparison.ts): data model\<close>

text \<open>
  JavaScript numbers that can reach the report generator.  A finite double is the real
  number it denotes (comparisons between doubles are exact, so the branch taken by
  \<open>x < c\<close> is the branch taken on the denoted reals); the three non-finite values are
  kept apart because the division on line 100 can produce them.  Rounding of arithmetic
  results and the sign of zero are not modelled.
\<close>

datatype jsnum = Num real | NaN | PosInf | NegInf

text \<open>\<open>a < c\<close> and \<open>a >= c\<close> of JavaScript against a finite constant \<open>c\<close>:
  every comparison with NaN is false.\<close>

fun js_lt :: "jsnum \<Rightarrow> real \<Rightarrow> bool" where
  "js_lt (Num x) c = (x < c)"
| "js_lt NaN c = False"
| "js_lt PosInf c = False"
| "js_lt NegInf c = True"

fun js_ge :: "jsnum \<Rightarrow> real \<Rightarrow> bool" where
  "js_ge (Num x) c = (c \<le> x)"
| "js_ge NaN c = False"
| "js_ge PosInf c = True"
| "js_ge NegInf c = False"

text \<open>\<open>x / y\<close> on two finite numbers and \<open>d * c\<close> with a finite positive constant
  (IEEE 754: \<open>0/0\<close> is NaN, \<open>x/0\<close> is an infinity of the sign of \<open>x\<close>).\<close>

definition js_div :: "real \<Rightarrow> real \<Rightarrow> jsnum" where
  "js_div x y =
     (if y = 0 then (if x = 0 then NaN else if 0 < x then PosInf else NegInf)
      else Num (x / y))"

fun js_mul :: "jsnum \<Rightarrow> real \<Rightarrow> jsnum" where
  "js_mul (Num x) c = Num (x * c)"
| "js_mul NaN c = NaN"
| "js_mul PosInf c = (if 0 < c then PosInf else if c < 0 then NegInf else NaN)"
| "js_mul NegInf c = (if 0 < c then NegInf else if c < 0 then PosInf else NaN)"

text \<open>
  \<open>ImageComparisonParams\<close> (line 20) is the output type of \<open>ImageComparisonSchema\<close>
  (lines 7--18): the threshold is a number (the default makes it mandatory in the inferred
  type), the output path is optional.
\<close>

record ImageComparisonParams =
  image1Path :: string
  image2Path :: string
  threshold :: real
  outputPath :: "string option"

text \<open>The \<open>ComparisonResult\<close> interface (lines 23--34).\<close>

record image_size =
  width :: nat
  height :: nat

record metadata =
  image1Size :: image_size
  image2Size :: image_size
  threshold :: real
  comparedAt :: string

record ComparisonResult =
  diffPixels :: nat
  totalPixels :: nat
  diffPercentage :: jsnum
  diffImageData :: string
  metadata :: metadata

section \<open>ImageComparisonSchema (lines 7--18)\<close>


section \<open>The environment of compareImages\<close>

type_synonym byte = "8 word"
type_synonym pixel = "byte \<times> byte \<times> byte \<times> byte"

text \<open>The file system: the content of every readable file, by path.\<close>

type_synonym fs = "string \<rightharpoonup> byte list"

text \<open>What \<open>sharp(buffer).metadata()\<close> resolves to: both dimensions are optional.\<close>

record image_info =
  info_width :: "nat option"
  info_height :: "nat option"

text \<open>
  The libraries the method calls (fs, sharp, the clock) are not part of the repository;
  they are parameters.  A call that throws returns \<open>Inl\<close> of the message.
  \<^item> \<open>sharp_metadata b\<close>: \<open>sharp(b).metadata()\<close>;
  \<^item> \<open>sharp_resize_raw b w h\<close>: \<open>sharp(b).resize(w, h).raw().toBuffer()\<close>, the raw
    pixels with as many channels as the image has (no \<open>ensureAlpha\<close> is called);
  \<^item> \<open>sharp_raw_png d w h\<close>:
    \<open>sharp(d, {raw: {width: w, height: h, channels: 4}}).png().toBuffer()\<close>;
  \<^item> \<open>toString_base64 b\<close>: \<open>b.toString("base64")\<close>;
  \<^item> \<open>toISOString_now\<close>: \<open>new Date().toISOString()\<close>;
  \<^item> \<open>write_fault fs p d\<close>: whether \<open>writeFileSync(p, d)\<close> throws on the file system
    \<open>fs\<close>, and if so with which message and leaving which file system behind;
  \<^item> \<open>colorDelta\<close> and \<open>drawPixel\<close>: the colour metric and the marker colours of the
    pixel-difference library (see \<open>pixelmatch\<close> below).
\<close>

record libs =
  sharp_metadata :: "byte list \<Rightarrow> string + image_info"
  sharp_resize_raw :: "byte list \<Rightarrow> nat \<Rightarrow> nat \<Rightarrow> string + byte list"
  sharp_raw_png :: "byte list \<Rightarrow> nat \<Rightarrow> nat \<Rightarrow> string + byte list"
  toString_base64 :: "byte list \<Rightarrow> string"
  toISOString_now :: string
  write_fault :: "fs \<Rightarrow> string \<Rightarrow> byte list \<Rightarrow> (string \<times> fs) option"
  colorDelta :: "pixel \<Rightarrow> pixel \<Rightarrow> real"
  drawPixel :: "bool \<Rightarrow> pixel \<Rightarrow> pixel"

definition readFileSync :: "fs \<Rightarrow> string \<Rightarrow> string + byte list" where
  "readFileSync fs path =
     (case fs path of
        None \<Rightarrow> Inl ''ENOENT: no such file or directory''
      | Some b \<Rightarrow> Inr b)"

text \<open>A write that does not throw leaves the data at the path.\<close>

definition writeFileSync :: "libs \<Rightarrow> fs \<Rightarrow> string \<Rightarrow> byte list \<Rightarrow> (string + unit) \<times> fs" where
  "writeFileSync L fs path d =
     (case write_fault L fs path d of
        None \<Rightarrow> (Inr (), fs(path \<mapsto> d))
      | Some (msg, fs') \<Rightarrow> (Inl msg, fs'))"

subsection \<open>The pixel-difference step\<close>

fun pixels :: "byte list \<Rightarrow> pixel list" where
  "pixels (r # g # b # a # rest) = (r, g, b, a) # pixels rest"
| "pixels _ = []"

fun pixel_bytes :: "pixel \<Rightarrow> byte list" where
  "pixel_bytes (r, g, b, a) = [r, g, b, a]"

text \<open>
  Modelled from the spec: \<open>pixelmatch\<close> is an external library, absent from the
  sources.  The spec (4.1, step 5, and the glossary) describes it as a perceptual
  pixel-difference algorithm run over the two normalized buffers: the threshold decides
  how large a per-pixel colour delta must be before the pixel counts as different, a
  larger threshold tolerating more; it returns the count of flagged pixels and writes a
  marker for every pixel into the difference mask.  The colour metric and the marker
  colours are left open by the spec and are the parameters \<open>colorDelta\<close> (on the scale
  of the threshold) and \<open>drawPixel\<close>.  The diff is a stage that can fail (4.1, error
  conditions); here it fails when a buffer does not hold footprint-width times
  footprint-height pixels of 4 channels, the size the spec gives all three buffers.
\<close>

definition pixelmatch ::
  "libs \<Rightarrow> byte list \<Rightarrow> byte list \<Rightarrow> byte list \<Rightarrow> nat \<Rightarrow> nat \<Rightarrow> real
     \<Rightarrow> string + (nat \<times> byte list)" where
  "pixelmatch L img1 img2 output w h t =
     (if length img1 \<noteq> w * h * 4 \<or> length img2 \<noteq> w * h * 4 \<or> length output \<noteq> w * h * 4
      then Inl ''Image data size does not match width/height.''
      else
        let flagged = map (\<lambda>(p, q). t < colorDelta L p q) (zip (pixels img1) (pixels img2))
        in Inr (length (filter (\<lambda>f. f) flagged),
                concat (map (\<lambda>(f, p). pixel_bytes (drawPixel L f p))
                          (zip flagged (pixels img1)))))"

section \<open>compareImages (lines 38--135)\<close>

text \<open>
  Every exception inside the \<open>try\<close> block is caught on line 128 and thrown again as one
  \<open>Error\<close> whose message is a fixed prefix ("image comparison failed") followed by the
  original message.  The stage records which call threw.
\<close>

datatype stage = ReadFile | Metadata | Resize | Diff | EncodePng | WriteFile

datatype error = ImageComparisonFailed stage string

text \<open>\<open>x || 0\<close> on an optional number (lines 52--57 and 105--110).\<close>

fun or_zero :: "nat option \<Rightarrow> nat" where
  "or_zero None = 0"
| "or_zero (Some n) = n"

definition targetWidth :: "image_info \<Rightarrow> image_info \<Rightarrow> nat" where
  "targetWidth image1Info image2Info =
     min (or_zero (info_width image1Info)) (or_zero (info_width image2Info))"

definition targetHeight :: "image_info \<Rightarrow> image_info \<Rightarrow> nat" where
  "targetHeight image1Info image2Info =
     min (or_zero (info_height image1Info)) (or_zero (info_height image2Info))"

text \<open>The method takes the file system and returns it with the outcome.  The test
  \<open>if (params.outputPath)\<close> on line 117 is false for an absent path and for the empty
  string.\<close>

definition compareImages ::
  "libs \<Rightarrow> fs \<Rightarrow> ImageComparisonParams \<Rightarrow> (error + ComparisonResult) \<times> fs" where
  "compareImages L fs params =
    (case readFileSync fs (image1Path params) of
       Inl msg \<Rightarrow> (Inl (ImageComparisonFailed ReadFile msg), fs)
     | Inr image1Buffer \<Rightarrow>
    (case readFileSync fs (image2Path params) of
       Inl msg \<Rightarrow> (Inl (ImageComparisonFailed ReadFile msg), fs)
     | Inr image2Buffer \<Rightarrow>
    (case sharp_metadata L image1Buffer of
       Inl msg \<Rightarrow> (Inl (ImageComparisonFailed Metadata msg), fs)
     | Inr image1Info \<Rightarrow>
    (case sharp_metadata L image2Buffer of
       Inl msg \<Rightarrow> (Inl (ImageComparisonFailed Metadata msg), fs)
     | Inr image2Info \<Rightarrow>
    (let tw = targetWidth image1Info image2Info;
         th = targetHeight image1Info image2Info in
    (case sharp_resize_raw L image1Buffer tw th of
       Inl msg \<Rightarrow> (Inl (ImageComparisonFailed Resize msg), fs)
     | Inr image1Resized \<Rightarrow>
    (case sharp_resize_raw L image2Buffer tw th of
       Inl msg \<Rightarrow> (Inl (ImageComparisonFailed Resize msg), fs)
     | Inr image2Resized \<Rightarrow>
    (let diffBuffer = replicate (tw * th * 4) (0 :: byte) in
    (case pixelmatch L image1Resized image2Resized diffBuffer tw th
            (ImageComparisonParams.threshold params) of
       Inl msg \<Rightarrow> (Inl (ImageComparisonFailed Diff msg), fs)
     | Inr (n, diffBuffer') \<Rightarrow>
    (case sharp_raw_png L diffBuffer' tw th of
       Inl msg \<Rightarrow> (Inl (ImageComparisonFailed EncodePng msg), fs)
     | Inr diffImageBuffer \<Rightarrow>
    (let result =
       \<lparr>diffPixels = n,
        totalPixels = tw * th,
        diffPercentage = js_mul (js_div (real n) (real (tw * th))) 100,
        diffImageData = toString_base64 L diffImageBuffer,
        metadata =
          \<lparr>image1Size = \<lparr>width = or_zero (info_width image1Info),
                          height = or_zero (info_height image1Info)\<rparr>,
           image2Size = \<lparr>width = or_zero (info_width image2Info),
                          height = or_zero (info_height image2Info)\<rparr>,
           threshold = ImageComparisonParams.threshold params,
           comparedAt = toISOString_now L\<rparr>\<rparr> in
     (case outputPath params of
        None \<Rightarrow> (Inr result, fs)
      | Some path \<Rightarrow>
          if path = [] then (Inr result, fs)
          else
            (case writeFileSync L fs path diffImageBuffer of
               (Inl msg, fs') \<Rightarrow> (Inl (ImageComparisonFailed WriteFile msg), fs')
             | (Inr u, fs') \<Rightarrow> (Inr result, fs'))))))))))))))"

section \<open>generateDifferenceDescription (lines 138--186)\<close>

text \<open>
  The report is built by appending one template literal per statement.  Each statement is
  one constructor below, in source order; the interpolated numbers are carried as
  arguments (their formatting by \<open>toLocaleString\<close> and \<open>toFixed\<close> is the runtime's).
  The fixed Korean texts are named by their meaning, with the ASCII part of the literal
  in parentheses:
  \<^item> line 141 \<open>Title\<close>: "image comparison result";
  \<^item> line 144 \<open>BasicStatisticsHeader\<close>; lines 145--148 the four statistics;
  \<^item> line 153 \<open>ImageSizeHeader\<close>; lines 154--155 the two sizes;
  \<^item> line 158 \<open>DifferenceAnalysisHeader\<close>;
  \<^item> line 160 \<open>NearlyIdentical\<close> ("< 1%"), line 162 \<open>SlightDifference\<close> ("1-5%"),
    line 164 \<open>ConsiderableDifference\<close> ("5-20%"), line 166 \<open>BigDifference\<close> ("> 20%");
  \<^item> line 170 \<open>DifferenceTypeHeader\<close>: "estimated kind of difference";
  \<^item> lines 172--174 fine rendering difference, compression artifacts, colour profile
    difference;
  \<^item> lines 176--178 UI element position difference, font rendering difference, colour
    and opacity difference;
  \<^item> lines 180--182 layout structure difference, content change, new UI element
    added/removed.
\<close>

datatype line =
    Title
  | BasicStatisticsHeader
  | TotalPixelsLine nat
  | DiffPixelsLine nat
  | DiffRatioLine jsnum
  | ThresholdLine real
  | ImageSizeHeader
  | Image1Line nat nat
  | Image2Line nat nat
  | DifferenceAnalysisHeader
  | NearlyIdentical
  | SlightDifference
  | ConsiderableDifference
  | BigDifference
  | DifferenceTypeHeader
  | FineRenderingDifference
  | CompressionArtifacts
  | ColorProfileDifference
  | UIElementPositionDifference
  | FontRenderingDifference
  | ColorAndOpacityDifference
  | LayoutStructureDifference
  | ContentChange
  | UIElementAddedOrRemoved

definition generateDifferenceDescription :: "ComparisonResult \<Rightarrow> line list" where
  "generateDifferenceDescription result =
     (let d = diffPercentage result; m = metadata result in
      [Title,
       BasicStatisticsHeader,
       TotalPixelsLine (totalPixels result),
       DiffPixelsLine (diffPixels result),
       DiffRatioLine d,
       ThresholdLine (metadata.threshold m * 100),
       ImageSizeHeader,
       Image1Line (width (image1Size m)) (height (image1Size m)),
       Image2Line (width (image2Size m)) (height (image2Size m)),
       DifferenceAnalysisHeader]
      @ (if js_lt d 1 then [NearlyIdentical]
         else if js_lt d 5 then [SlightDifference]
         else if js_lt d 20 then [ConsiderableDifference]
         else [BigDifference])
      @ [DifferenceTypeHeader]
      @ (if js_lt d 1 then
           [FineRenderingDifference, CompressionArtifacts, ColorProfileDifference]
         else if js_lt d 10 then
           [UIElementPositionDifference, FontRenderingDifference, ColorAndOpacityDifference]
         else
           [LayoutStructureDifference, ContentChange, UIElementAddedOrRemoved]))"

text \<open>The two parts of a report the classification claims are about: the line appended
  by the chain of lines 159--167, and the lines appended by the chain of lines 171--183.\<close>

definition severity_line :: "line list \<Rightarrow> line" where
  "severity_line report = report ! 10"

definition cause_lines :: "line list \<Rightarrow> line list" where
  "cause_lines report = drop 12 report"

section \<open>Concrete inputs\<close>

text \<open>
  A small world on which the definitions can be run: four files and a decoder that knows
  them (the third has no dimensions in its metadata, the fourth is an image without an
  alpha channel), a colour metric that looks at the red channel only, and a file system
  on which writes succeed.  The resize behaves as sharp's does: it rejects a width or
  height of 0, and its raw output has 3 bytes per pixel for the image without alpha and
  4 for the others.
\<close>

definition example_fs :: fs where
  "example_fs =
     [''web.png'' \<mapsto> [1], ''figma.png'' \<mapsto> [2], ''nosize.png'' \<mapsto> [3],
      ''photo.jpg'' \<mapsto> [4]]"

definition example_metadata :: "byte list \<Rightarrow> string + image_info" where
  "example_metadata b =
     (if b = [1] then Inr \<lparr>info_width = Some 3, info_height = Some 1\<rparr>
      else if b = [2] then Inr \<lparr>info_width = Some 4, info_height = Some 2\<rparr>
      else if b = [3] then Inr \<lparr>info_width = None, info_height = None\<rparr>
      else if b = [4] then Inr \<lparr>info_width = Some 2, info_height = Some 1\<rparr>
      else Inl ''Input buffer contains unsupported image format'')"

definition example_resize :: "byte list \<Rightarrow> nat \<Rightarrow> nat \<Rightarrow> string + byte list" where
  "example_resize b w h =
     (if w = 0 then Inl ''Expected positive integer for width but received 0 of type number''
      else if h = 0
      then Inl ''Expected positive integer for height but received 0 of type number''
      else if b = [2]
      then Inr (take (w * h * 4) ([200, 200, 200, 255] @ replicate (w * h * 4) 10))
      else if b = [4] then Inr (replicate (w * h * 3) 10)
      else Inr (replicate (w * h * 4) 10))"

definition example_delta :: "pixel \<Rightarrow> pixel \<Rightarrow> real" where
  "example_delta p q =
     (case (p, q) of ((r1, g1, b1, a1), (r2, g2, b2, a2)) \<Rightarrow>
        \<bar>real (unat r1) - real (unat r2)\<bar> / 255)"

definition example_libs :: libs where
  "example_libs =
     \<lparr>sharp_metadata = example_metadata,
      sharp_resize_raw = example_resize,
      sharp_raw_png = (\<lambda>d w h. Inr (137 # 80 # 78 # 71 # d)),
      toString_base64 = (\<lambda>b. ''iVBORw==''),
      toISOString_now = ''2025-01-01T00:00:00.000Z'',
      write_fault = (\<lambda>fs path d. None),
      colorDelta = example_delta,
      drawPixel = (\<lambda>f p. if f then (255, 0, 0, 255) else p)\<rparr>"

text \<open>The same libraries on a full disk: \<open>writeFileSync\<close> opens the file for writing,
  which creates it empty, and then throws.\<close>

definition full_disk_libs :: libs where
  "full_disk_libs =
     example_libs
       \<lparr>write_fault :=
          (\<lambda>fs path d. Some (''ENOSPC: no space left on device, write'', fs(path \<mapsto> [])))\<rparr>"

definition example_params :: "real \<Rightarrow> string option \<Rightarrow> ImageComparisonParams" where
  "example_params t out =
     \<lparr>image1Path = ''web.png'', image2Path = ''figma.png'',
      ImageComparisonParams.threshold = t, outputPath = out\<rparr>"

definition photo_params :: ImageComparisonParams where
  "photo_params =
     \<lparr>image1Path = ''photo.jpg'', image2Path = ''photo.jpg'',
      ImageComparisonParams.threshold = 0.1, outputPath = None\<rparr>"

definition nosize_params :: ImageComparisonParams where
  "nosize_params =
     \<lparr>image1Path = ''nosize.png'', image2Path = ''figma.png'',
      ImageComparisonParams.threshold = 0.1, outputPath = None\<rparr>"

definition missing_params :: ImageComparisonParams where
  "missing_params =
     \<lparr>image1Path = ''web.png'', image2Path = ''missing.png'',
      ImageComparisonParams.threshold = 0.1, outputPath = Some ''diff.png''\<rparr>"

text \<open>A result with \<open>n\<close> differing pixels out of \<open>m\<close>, as compareImages computes it.\<close>

definition sample_result :: "nat \<Rightarrow> nat \<Rightarrow> ComparisonResult" where
  "sample_result n m =
     \<lparr>diffPixels = n,
      totalPixels = m,
      diffPercentage = js_mul (js_div (real n) (real m)) 100,
      diffImageData = ''iVBORw=='',
      metadata =
        \<lparr>image1Size = \<lparr>width = m, height = 1\<rparr>,
         image2Size = \<lparr>width = m, height = 1\<rparr>,
         threshold = 0.1,
         comparedAt = ''2025-01-01T00:00:00.000Z''\<rparr>\<rparr>"

text \<open>What compareImages returns for the first two files at threshold \<open>0.1\<close>: one of
  the three pixels of the footprint is flagged.\<close>

definition example_result :: ComparisonResult where
  "example_result =
     \<lparr>diffPixels = 1, totalPixels = 3, diffPercentage = Num (100 / 3),
      diffImageData = ''iVBORw=='',
      metadata =
        \<lparr>image1Size = \<lparr>width = 3, height = 1\<rparr>,
         image2Size = \<lparr>width = 4, height = 2\<rparr>,
         threshold = 0.1,
         comparedAt = ''2025-01-01T00:00:00.000Z''\<rparr>\<rparr>"

section \<open>Auxiliary facts\<close>

lemma report_severity:
  "severity_line (generateDifferenceDescription r) =
     (if js_lt (diffPercentage r) 1 then NearlyIdentical
      else if js_lt (diffPercentage r) 5 then SlightDifference
      else if js_lt (diffPercentage r) 20 then ConsiderableDifference
      else BigDifference)"
  by (simp add: generateDifferenceDescription_def severity_line_def Let_def)

lemma report_causes:
  "cause_lines (generateDifferenceDescription r) =
     (if js_lt (diffPercentage r) 1 then
        [FineRenderingDifference, CompressionArtifacts, ColorProfileDifference]
      else if js_lt (diffPercentage r) 10 then
        [UIElementPositionDifference, FontRenderingDifference, ColorAndOpacityDifference]
      else [LayoutStructureDifference, ContentChange, UIElementAddedOrRemoved])"
  by (simp add: generateDifferenceDescription_def cause_lines_def Let_def)

lemma length_pixels: "length (pixels bs) = length bs div 4"
  by (induction bs rule: pixels.induct) simp_all

lemma length_filter_imp:
  "(\<And>x. x \<in> set xs \<Longrightarrow> P x \<Longrightarrow> Q x) \<Longrightarrow> length (filter P xs) \<le> length (filter Q xs)"
  by (induction xs) auto

lemma pixelmatch_Inr:
  assumes "pixelmatch L a b out w h t = Inr (n, d)"
  shows "length a = w * h * 4" and "length b = w * h * 4"
    and "n = length (filter (\<lambda>(p, q). t < colorDelta L p q) (zip (pixels a) (pixels b)))"
  using assms
  by (auto simp: pixelmatch_def Let_def filter_map comp_def split: if_splits prod.splits)

lemma pixelmatch_bound:
  assumes "pixelmatch L a b out w h t = Inr (n, d)"
  shows "n \<le> w * h"
proof -
  have "n \<le> length (zip (pixels a) (pixels b))"
    unfolding pixelmatch_Inr(3)[OF assms] by (rule length_filter_le)
  also have "\<dots> = w * h"
    by (simp add: length_pixels pixelmatch_Inr(1,2)[OF assms])
  finally show ?thesis .
qed

lemma pixelmatch_antimono:
  assumes "pixelmatch L a b out w h t1 = Inr (n1, d1)"
    and "pixelmatch L a b out w h t2 = Inr (n2, d2)"
    and "t1 \<le> t2"
  shows "n2 \<le> n1"
  unfolding pixelmatch_Inr(3)[OF assms(1)] pixelmatch_Inr(3)[OF assms(2)]
  using assms(3) by (intro length_filter_imp) auto

lemma compareImages_Inr:
  assumes "fst (compareImages L fs p) = Inr r"
  shows "\<exists>b1 b2 i1 i2 r1 r2 d png.
    readFileSync fs (image1Path p) = Inr b1 \<and>
    readFileSync fs (image2Path p) = Inr b2 \<and>
    sharp_metadata L b1 = Inr i1 \<and>
    sharp_metadata L b2 = Inr i2 \<and>
    sharp_resize_raw L b1 (targetWidth i1 i2) (targetHeight i1 i2) = Inr r1 \<and>
    sharp_resize_raw L b2 (targetWidth i1 i2) (targetHeight i1 i2) = Inr r2 \<and>
    pixelmatch L r1 r2 (replicate (targetWidth i1 i2 * targetHeight i1 i2 * 4) 0)
      (targetWidth i1 i2) (targetHeight i1 i2) (ImageComparisonParams.threshold p)
      = Inr (diffPixels r, d) \<and>
    sharp_raw_png L d (targetWidth i1 i2) (targetHeight i1 i2) = Inr png \<and>
    totalPixels r = targetWidth i1 i2 * targetHeight i1 i2 \<and>
    diffPercentage r = js_mul (js_div (real (diffPixels r)) (real (totalPixels r))) 100 \<and>
    diffImageData r = toString_base64 L png \<and>
    image1Size (metadata r) =
      \<lparr>width = or_zero (info_width i1), height = or_zero (info_height i1)\<rparr> \<and>
    image2Size (metadata r) =
      \<lparr>width = or_zero (info_width i2), height = or_zero (info_height i2)\<rparr> \<and>
    metadata.threshold (metadata r) = ImageComparisonParams.threshold p \<and>
    comparedAt (metadata r) = toISOString_now L"
  using assms unfolding compareImages_def Let_def
  by (auto split: sum.splits prod.splits option.splits if_splits)

lemma compareImages_no_output:
  assumes "outputPath p = None \<or> outputPath p = Some []"
  shows "snd (compareImages L fs p) = fs"
  using assms unfolding compareImages_def Let_def
  by (auto split: sum.splits prod.splits)

lemma compareImages_Inl:
  assumes "fst (compareImages L fs p) = Inl (ImageComparisonFailed s msg)"
    and "s \<noteq> WriteFile"
  shows "snd (compareImages L fs p) = fs"
  using assms unfolding compareImages_def Let_def
  by (auto split: sum.splits prod.splits option.splits if_splits)

lemma compareImages_write:
  assumes "snd (compareImages L fs p) \<noteq> fs"
  shows "\<exists>b1 b2 i1 i2 r1 r2 n d png path.
    readFileSync fs (image1Path p) = Inr b1 \<and>
    readFileSync fs (image2Path p) = Inr b2 \<and>
    sharp_metadata L b1 = Inr i1 \<and>
    sharp_metadata L b2 = Inr i2 \<and>
    sharp_resize_raw L b1 (targetWidth i1 i2) (targetHeight i1 i2) = Inr r1 \<and>
    sharp_resize_raw L b2 (targetWidth i1 i2) (targetHeight i1 i2) = Inr r2 \<and>
    pixelmatch L r1 r2 (replicate (targetWidth i1 i2 * targetHeight i1 i2 * 4) 0)
      (targetWidth i1 i2) (targetHeight i1 i2) (ImageComparisonParams.threshold p)
      = Inr (n, d) \<and>
    sharp_raw_png L d (targetWidth i1 i2) (targetHeight i1 i2) = Inr png \<and>
    outputPath p = Some path \<and> path \<noteq> [] \<and>
    snd (compareImages L fs p) = snd (writeFileSync L fs path png)"
  using assms unfolding compareImages_def Let_def
  by (auto split: sum.splits prod.splits option.splits if_splits)

subsection \<open>Runs on the concrete inputs\<close>

lemma example_run:
  "fst (compareImages example_libs example_fs (example_params 0.1 None)) = Inr example_result"
  by code_simp

lemma example_run_tolerant:
  "fst (compareImages example_libs example_fs (example_params 0.9 None)) =
     Inr (example_result
            \<lparr>diffPixels := 0, diffPercentage := Num 0,
             metadata := (metadata example_result) \<lparr>threshold := 0.9\<rparr>\<rparr>)"
  by code_simp

lemma example_run_missing:
  "fst (compareImages example_libs example_fs missing_params) =
     Inl (ImageComparisonFailed ReadFile ''ENOENT: no such file or directory'')"
  by code_simp


lemma example_run_write:
  "snd (compareImages example_libs example_fs (example_params 0.1 (Some ''diff.png'')))
     ''diff.png'' =
   Some [137, 80, 78, 71, 255, 0, 0, 255, 10, 10, 10, 10, 10, 10, 10, 10]"
  by code_simp

lemma example_fs_diff: "example_fs ''diff.png'' = None"
  by (simp add: example_fs_def)

section \<open>The claims\<close>

subsection \<open>C1: the causes listed in the report\<close>

text \<open>
  Claim C1, as amended.  The list of likely causes is chosen by breakpoints of its own,
  \<open>1\<close> and \<open>10\<close>, not by the breakpoints of the severity line: a difference percentage
  below 1 gives the rendering, compression and colour-profile causes; a percentage in
  \<open>[1, 10)\<close> gives the positioning, font and colour/opacity causes; a percentage of 10
  or more gives the layout, content and added/removed-element causes.
\<close>

theorem cause_breakpoints:
  "(js_lt (diffPercentage r) 1 \<longrightarrow>
      cause_lines (generateDifferenceDescription r) =
        [FineRenderingDifference, CompressionArtifacts, ColorProfileDifference]) \<and>
   (js_ge (diffPercentage r) 1 \<and> js_lt (diffPercentage r) 10 \<longrightarrow>
      cause_lines (generateDifferenceDescription r) =
        [UIElementPositionDifference, FontRenderingDifference, ColorAndOpacityDifference]) \<and>
   (js_ge (diffPercentage r) 10 \<longrightarrow>
      cause_lines (generateDifferenceDescription r) =
        [LayoutStructureDifference, ContentChange, UIElementAddedOrRemoved])"
  by (cases "diffPercentage r") (auto simp: report_causes)

theorem cause_breakpoints_witness:
  "diffPercentage (sample_result 99 10000) = Num 0.99 \<and>
   cause_lines (generateDifferenceDescription (sample_result 99 10000)) =
     [FineRenderingDifference, CompressionArtifacts, ColorProfileDifference] \<and>
   diffPercentage (sample_result 999 10000) = Num 9.99 \<and>
   cause_lines (generateDifferenceDescription (sample_result 999 10000)) =
     [UIElementPositionDifference, FontRenderingDifference, ColorAndOpacityDifference] \<and>
   diffPercentage (sample_result 500 5000) = Num 10 \<and>
   cause_lines (generateDifferenceDescription (sample_result 500 5000)) =
     [LayoutStructureDifference, ContentChange, UIElementAddedOrRemoved]"
proof -
  have a: "diffPercentage (sample_result 99 10000) = Num 0.99"
    and b: "diffPercentage (sample_result 999 10000) = Num 9.99"
    and c: "diffPercentage (sample_result 500 5000) = Num 10"
    by (simp_all add: sample_result_def js_div_def)
  show ?thesis
    using cause_breakpoints [of "sample_result 99 10000"]
      cause_breakpoints [of "sample_result 999 10000"]
      cause_breakpoints [of "sample_result 500 5000"]
    by (simp add: a b c)
qed

text \<open>
  The claim C1 as it was stated fails at 10 percent (500 differing pixels out of 5000):
  the percentage lies in \<open>[5, 20)\<close> and the severity line is the "considerable" one, yet
  the causes listed are those of the last bucket.
\<close>

theorem cause_breakpoints_counterexample:
  "js_ge (diffPercentage (sample_result 500 5000)) 5 \<and>
   js_lt (diffPercentage (sample_result 500 5000)) 20 \<and>
   severity_line (generateDifferenceDescription (sample_result 500 5000)) =
     ConsiderableDifference \<and>
   cause_lines (generateDifferenceDescription (sample_result 500 5000)) =
     [LayoutStructureDifference, ContentChange, UIElementAddedOrRemoved] \<and>
   cause_lines (generateDifferenceDescription (sample_result 500 5000)) \<noteq>
     [UIElementPositionDifference, FontRenderingDifference, ColorAndOpacityDifference]"
  by (simp add: report_severity report_causes sample_result_def js_div_def)

subsection \<open>C2: the threshold of a request\<close>




subsection \<open>C3: the severity line of the report\<close>

text \<open>
  Claim C3.  The severity line is chosen by fixed breakpoints on the difference
  percentage: below 1 "nearly identical", from 1 to below 5 "slight difference", from 5
  to below 20 "considerable difference", 20 and above "big difference".  The witness
  evaluates the six boundary values 0.99, 1.0, 4.999, 5.0, 19.999 and 20.0.
\<close>

theorem severity_breakpoints:
  "(js_lt (diffPercentage r) 1 \<longrightarrow>
      severity_line (generateDifferenceDescription r) = NearlyIdentical) \<and>
   (js_ge (diffPercentage r) 1 \<and> js_lt (diffPercentage r) 5 \<longrightarrow>
      severity_line (generateDifferenceDescription r) = SlightDifference) \<and>
   (js_ge (diffPercentage r) 5 \<and> js_lt (diffPercentage r) 20 \<longrightarrow>
      severity_line (generateDifferenceDescription r) = ConsiderableDifference) \<and>
   (js_ge (diffPercentage r) 20 \<longrightarrow>
      severity_line (generateDifferenceDescription r) = BigDifference)"
  by (cases "diffPercentage r") (auto simp: report_severity)

theorem severity_breakpoints_witness:
  "diffPercentage (sample_result 99 10000) = Num 0.99 \<and>
   severity_line (generateDifferenceDescription (sample_result 99 10000)) = NearlyIdentical \<and>
   diffPercentage (sample_result 100 10000) = Num 1.0 \<and>
   severity_line (generateDifferenceDescription (sample_result 100 10000)) = SlightDifference \<and>
   diffPercentage (sample_result 4999 100000) = Num 4.999 \<and>
   severity_line (generateDifferenceDescription (sample_result 4999 100000)) = SlightDifference \<and>
   diffPercentage (sample_result 500 10000) = Num 5.0 \<and>
   severity_line (generateDifferenceDescription (sample_result 500 10000)) =
     ConsiderableDifference \<and>
   diffPercentage (sample_result 19999 100000) = Num 19.999 \<and>
   severity_line (generateDifferenceDescription (sample_result 19999 100000)) =
     ConsiderableDifference \<and>
   diffPercentage (sample_result 2000 10000) = Num 20.0 \<and>
   severity_line (generateDifferenceDescription (sample_result 2000 10000)) = BigDifference"
proof -
  have p: "diffPercentage (sample_result 99 10000) = Num 0.99"
    "diffPercentage (sample_result 100 10000) = Num 1.0"
    "diffPercentage (sample_result 4999 100000) = Num 4.999"
    "diffPercentage (sample_result 500 10000) = Num 5.0"
    "diffPercentage (sample_result 19999 100000) = Num 19.999"
    "diffPercentage (sample_result 2000 10000) = Num 20.0"
    by (simp_all add: sample_result_def js_div_def)
  show ?thesis
    using severity_breakpoints [of "sample_result 99 10000"]
      severity_breakpoints [of "sample_result 100 10000"]
      severity_breakpoints [of "sample_result 4999 100000"]
      severity_breakpoints [of "sample_result 500 10000"]
      severity_breakpoints [of "sample_result 19999 100000"]
      severity_breakpoints [of "sample_result 2000 10000"]
    by (simp add: p)
qed

subsection \<open>C4: the pixel counts of a result\<close>

text \<open>
  Claim C4.  Whenever compareImages succeeds, the number of differing pixels lies between
  0 and the total number of pixels, and the total is the product of the smaller of the
  two decoded widths and the smaller of the two decoded heights (a missing dimension
  counting as 0).  The bound on the differing pixels rests on \<open>pixelmatch\<close> counting
  pixels of the footprint.
\<close>

theorem pixel_count_invariant:
  assumes "fst (compareImages L fs p) = Inr r"
  shows "\<exists>b1 b2 i1 i2.
    readFileSync fs (image1Path p) = Inr b1 \<and> sharp_metadata L b1 = Inr i1 \<and>
    readFileSync fs (image2Path p) = Inr b2 \<and> sharp_metadata L b2 = Inr i2 \<and>
    0 \<le> diffPixels r \<and> diffPixels r \<le> totalPixels r \<and>
    totalPixels r =
      min (or_zero (info_width i1)) (or_zero (info_width i2)) *
      min (or_zero (info_height i1)) (or_zero (info_height i2))"
proof -
  from compareImages_Inr [OF assms] obtain b1 b2 i1 i2 r1 r2 d where
    rd: "readFileSync fs (image1Path p) = Inr b1" "readFileSync fs (image2Path p) = Inr b2"
    and md: "sharp_metadata L b1 = Inr i1" "sharp_metadata L b2 = Inr i2"
    and pm: "pixelmatch L r1 r2 (replicate (targetWidth i1 i2 * targetHeight i1 i2 * 4) 0)
      (targetWidth i1 i2) (targetHeight i1 i2) (ImageComparisonParams.threshold p)
      = Inr (diffPixels r, d)"
    and tp: "totalPixels r = targetWidth i1 i2 * targetHeight i1 i2"
    by blast
  have "diffPixels r \<le> totalPixels r"
    using pixelmatch_bound [OF pm] tp by simp
  with rd md tp show ?thesis
    by (auto simp: targetWidth_def targetHeight_def)
qed

theorem pixel_count_invariant_witness:
  "\<exists>b1 b2 i1 i2.
    readFileSync example_fs (image1Path (example_params 0.1 None)) = Inr b1 \<and>
    sharp_metadata example_libs b1 = Inr i1 \<and>
    readFileSync example_fs (image2Path (example_params 0.1 None)) = Inr b2 \<and>
    sharp_metadata example_libs b2 = Inr i2 \<and>
    0 \<le> diffPixels example_result \<and> diffPixels example_result \<le> totalPixels example_result \<and>
    totalPixels example_result =
      min (or_zero (info_width i1)) (or_zero (info_width i2)) *
      min (or_zero (info_height i1)) (or_zero (info_height i2))"
  using pixel_count_invariant [OF example_run] .

subsection \<open>C5: the difference percentage\<close>

text \<open>
  Claim C5.  Whenever compareImages succeeds, the difference percentage of the result is
  the quotient of the two counts of the same result, times 100, with the division of
  numbers (no truncation to an integer): for one differing pixel out of three it is a
  third of 100, not 33.
\<close>

theorem percentage_is_exact_quotient:
  assumes "fst (compareImages L fs p) = Inr r"
  shows "diffPercentage r = js_mul (js_div (real (diffPixels r)) (real (totalPixels r))) 100 \<and>
    (0 < totalPixels r \<longrightarrow>
       diffPercentage r = Num (real (diffPixels r) / real (totalPixels r) * 100))"
  using compareImages_Inr [OF assms] by (auto simp: js_div_def)

theorem percentage_is_exact_quotient_witness:
  "diffPixels example_result = 1 \<and> totalPixels example_result = 3 \<and>
   diffPercentage example_result = Num (1 / 3 * 100) \<and>
   diffPercentage example_result \<noteq> Num 33"
  using percentage_is_exact_quotient [OF example_run]
  by (simp add: example_result_def js_div_def)

subsection \<open>C6: failures and the output file\<close>

text \<open>
  Claim C6, as amended.  When compareImages fails at any stage before the write (reading
  a source, reading its metadata, resizing, the pixel difference, the PNG encoding), the
  file system is left as it was; and whenever the file system changes, every one of
  these stages has succeeded and the change is the one made by the single
  \<open>writeFileSync\<close> call on the output path.  Nothing is said about what a failing
  \<open>writeFileSync\<close> leaves behind.
\<close>

theorem failure_before_write_keeps_files:
  "(fst (compareImages L fs p) = Inl (ImageComparisonFailed s msg) \<and> s \<noteq> WriteFile \<longrightarrow>
      snd (compareImages L fs p) = fs) \<and>
   (snd (compareImages L fs p) \<noteq> fs \<longrightarrow>
      (\<exists>b1 b2 i1 i2 r1 r2 n d png path.
         readFileSync fs (image1Path p) = Inr b1 \<and>
         readFileSync fs (image2Path p) = Inr b2 \<and>
         sharp_metadata L b1 = Inr i1 \<and>
         sharp_metadata L b2 = Inr i2 \<and>
         sharp_resize_raw L b1 (targetWidth i1 i2) (targetHeight i1 i2) = Inr r1 \<and>
         sharp_resize_raw L b2 (targetWidth i1 i2) (targetHeight i1 i2) = Inr r2 \<and>
         pixelmatch L r1 r2 (replicate (targetWidth i1 i2 * targetHeight i1 i2 * 4) 0)
           (targetWidth i1 i2) (targetHeight i1 i2) (ImageComparisonParams.threshold p)
           = Inr (n, d) \<and>
         sharp_raw_png L d (targetWidth i1 i2) (targetHeight i1 i2) = Inr png \<and>
         outputPath p = Some path \<and> path \<noteq> [] \<and>
         snd (compareImages L fs p) = snd (writeFileSync L fs path png)))"
  using compareImages_Inl [of L fs p s msg] compareImages_write [of L fs p] by blast

theorem failure_before_write_keeps_files_witness:
  "fst (compareImages example_libs example_fs missing_params) =
     Inl (ImageComparisonFailed ReadFile ''ENOENT: no such file or directory'') \<and>
   outputPath missing_params = Some ''diff.png'' \<and>
   snd (compareImages example_libs example_fs missing_params) = example_fs \<and>
   snd (compareImages example_libs example_fs (example_params 0.1 (Some ''diff.png'')))
     \<noteq> example_fs \<and>
   (\<exists>png. snd (compareImages example_libs example_fs (example_params 0.1 (Some ''diff.png'')))
            = snd (writeFileSync example_libs example_fs ''diff.png'' png))"
proof -
  have ne: "snd (compareImages example_libs example_fs (example_params 0.1 (Some ''diff.png'')))
     \<noteq> example_fs"
    using example_run_write example_fs_diff by auto
  have "\<exists>png. snd (compareImages example_libs example_fs (example_params 0.1 (Some ''diff.png'')))
            = snd (writeFileSync example_libs example_fs ''diff.png'' png)"
    using failure_before_write_keeps_files
      [of example_libs example_fs "example_params 0.1 (Some ''diff.png'')"] ne
    by (auto simp: example_params_def)
  with ne show ?thesis
    using failure_before_write_keeps_files
      [of example_libs example_fs missing_params ReadFile
        "''ENOENT: no such file or directory''"]
      example_run_missing
    by (simp add: missing_params_def)
qed

text \<open>
  The claim C6 as it was stated fails when the write itself fails: on a full disk
  \<open>writeFileSync\<close> creates the file and throws; compareImages throws in turn and does
  not remove the file, so an output file exists where there was none.
\<close>

theorem failed_write_counterexample:
  "fst (compareImages full_disk_libs example_fs (example_params 0.1 (Some ''diff.png''))) =
     Inl (ImageComparisonFailed WriteFile ''ENOSPC: no space left on device, write'') \<and>
   example_fs ''diff.png'' = None \<and>
   snd (compareImages full_disk_libs example_fs (example_params 0.1 (Some ''diff.png'')))
     ''diff.png'' = Some []"
  by code_simp

subsection \<open>C7: missing width or height metadata\<close>

text \<open>
  Claim C7, as amended.  When the metadata of a decoded image lacks its width or its
  height, compareImages takes the missing dimension as 0, so the normalized footprint
  has that dimension 0 (it is 0 by 0 when a width and a height are missing), and raises
  no error of its own.  The zero dimension goes to the resize call of lines 61--64, which
  sharp rejects: compareImages fails there with its general failure, leaves the files
  untouched, and never reaches the division of line 100.
\<close>

theorem missing_dimension_fails_at_resize:
  assumes "readFileSync fs (image1Path p) = Inr b1" and "sharp_metadata L b1 = Inr i1"
    and "readFileSync fs (image2Path p) = Inr b2" and "sharp_metadata L b2 = Inr i2"
    and "info_width i1 = None \<or> info_width i2 = None \<or>
         info_height i1 = None \<or> info_height i2 = None"
    and "\<forall>b w h. w = 0 \<or> h = 0 \<longrightarrow> isl (sharp_resize_raw L b w h)"
  shows "(info_width i1 = None \<or> info_width i2 = None \<longrightarrow> targetWidth i1 i2 = 0) \<and>
    (info_height i1 = None \<or> info_height i2 = None \<longrightarrow> targetHeight i1 i2 = 0) \<and>
    ((info_width i1 = None \<or> info_width i2 = None) \<and>
     (info_height i1 = None \<or> info_height i2 = None) \<longrightarrow>
       targetWidth i1 i2 = 0 \<and> targetHeight i1 i2 = 0) \<and>
    (\<exists>msg. sharp_resize_raw L b1 (targetWidth i1 i2) (targetHeight i1 i2) = Inl msg \<and>
           fst (compareImages L fs p) = Inl (ImageComparisonFailed Resize msg)) \<and>
    (\<forall>r. fst (compareImages L fs p) \<noteq> Inr r) \<and>
    snd (compareImages L fs p) = fs"
proof -
  have w: "info_width i1 = None \<or> info_width i2 = None \<longrightarrow> targetWidth i1 i2 = 0"
    by (auto simp: targetWidth_def)
  have h: "info_height i1 = None \<or> info_height i2 = None \<longrightarrow> targetHeight i1 i2 = 0"
    by (auto simp: targetHeight_def)
  from assms(6) have r: "isl (sharp_resize_raw L b w h)" if "w = 0 \<or> h = 0" for b w h
    using that by blast
  from assms(5) w h have "targetWidth i1 i2 = 0 \<or> targetHeight i1 i2 = 0"
    by auto
  then have "isl (sharp_resize_raw L b1 (targetWidth i1 i2) (targetHeight i1 i2))"
    by (rule r)
  then obtain msg where
    m: "sharp_resize_raw L b1 (targetWidth i1 i2) (targetHeight i1 i2) = Inl msg"
    by (auto simp: isl_def)
  have c: "compareImages L fs p = (Inl (ImageComparisonFailed Resize msg), fs)"
    using assms(1-4) m by (simp add: compareImages_def)
  from w h m c show ?thesis by auto
qed

theorem missing_dimension_fails_at_resize_witness:
  "targetWidth \<lparr>info_width = None, info_height = None\<rparr>
     \<lparr>info_width = Some 4, info_height = Some 2\<rparr> = 0 \<and>
   targetHeight \<lparr>info_width = None, info_height = None\<rparr>
     \<lparr>info_width = Some 4, info_height = Some 2\<rparr> = 0 \<and>
   fst (compareImages example_libs example_fs nosize_params) =
     Inl (ImageComparisonFailed Resize
            ''Expected positive integer for width but received 0 of type number'') \<and>
   snd (compareImages example_libs example_fs nosize_params) = example_fs"
proof -
  have a: "readFileSync example_fs (image1Path nosize_params) = Inr [3]"
    and b: "sharp_metadata example_libs [3] = Inr \<lparr>info_width = None, info_height = None\<rparr>"
    and c: "readFileSync example_fs (image2Path nosize_params) = Inr [2]"
    and d: "sharp_metadata example_libs [2] = Inr \<lparr>info_width = Some 4, info_height = Some 2\<rparr>"
    by (simp_all add: readFileSync_def example_fs_def nosize_params_def example_libs_def
        example_metadata_def)
  have e: "info_width \<lparr>info_width = None, info_height = None\<rparr> = None \<or>
      info_width \<lparr>info_width = Some 4, info_height = Some 2\<rparr> = None \<or>
      info_height \<lparr>info_width = None, info_height = None\<rparr> = None \<or>
      info_height \<lparr>info_width = Some 4, info_height = Some 2\<rparr> = None"
    by simp
  have f: "\<forall>b w h. w = 0 \<or> h = 0 \<longrightarrow> isl (sharp_resize_raw example_libs b w h)"
    by (simp add: example_libs_def example_resize_def)
  have g: "sharp_resize_raw example_libs [3] 0 0 =
      Inl ''Expected positive integer for width but received 0 of type number''"
    by (simp add: example_libs_def example_resize_def)
  show ?thesis
    using missing_dimension_fails_at_resize [OF a b c d e f] g
    by auto
qed

text \<open>
  The claim C7 as it was stated has the difference percentage computed by a division by
  zero.  For a source whose metadata has no dimensions the footprint is 0 by 0, the
  resize is refused, and compareImages throws: no percentage is computed.
\<close>

theorem missing_dimension_counterexample:
  "readFileSync example_fs (image1Path nosize_params) = Inr [3] \<and>
   sharp_metadata example_libs [3] = Inr \<lparr>info_width = None, info_height = None\<rparr> \<and>
   sharp_resize_raw example_libs [3] 0 0 =
     Inl ''Expected positive integer for width but received 0 of type number'' \<and>
   isl (fst (compareImages example_libs example_fs nosize_params))"
  by code_simp

subsection \<open>C8: raising the threshold\<close>

text \<open>
  Claim C8.  For the same two sources on the same file system, a comparison with a
  threshold at least as large never reports more differing pixels.  The property is one
  of \<open>pixelmatch\<close>, which flags a pixel when its colour delta exceeds the threshold.
\<close>

theorem raising_threshold_never_flags_more:
  assumes "fst (compareImages L fs p) = Inr r"
    and "fst (compareImages L fs p') = Inr r'"
    and "image1Path p' = image1Path p" and "image2Path p' = image2Path p"
    and "ImageComparisonParams.threshold p \<le> ImageComparisonParams.threshold p'"
  shows "diffPixels r' \<le> diffPixels r"
proof -
  from compareImages_Inr [OF assms(1)] obtain b1 b2 i1 i2 r1 r2 d where
    a: "readFileSync fs (image1Path p) = Inr b1" "readFileSync fs (image2Path p) = Inr b2"
      "sharp_metadata L b1 = Inr i1" "sharp_metadata L b2 = Inr i2"
      "sharp_resize_raw L b1 (targetWidth i1 i2) (targetHeight i1 i2) = Inr r1"
      "sharp_resize_raw L b2 (targetWidth i1 i2) (targetHeight i1 i2) = Inr r2"
    and pm: "pixelmatch L r1 r2 (replicate (targetWidth i1 i2 * targetHeight i1 i2 * 4) 0)
      (targetWidth i1 i2) (targetHeight i1 i2) (ImageComparisonParams.threshold p)
      = Inr (diffPixels r, d)"
    by blast
  from compareImages_Inr [OF assms(2)] a assms(3,4) obtain d' where
    pm': "pixelmatch L r1 r2 (replicate (targetWidth i1 i2 * targetHeight i1 i2 * 4) 0)
      (targetWidth i1 i2) (targetHeight i1 i2) (ImageComparisonParams.threshold p')
      = Inr (diffPixels r', d')"
    by auto
  from pixelmatch_antimono [OF pm pm' assms(5)] show ?thesis .
qed

theorem raising_threshold_never_flags_more_witness:
  "diffPixels (example_result
            \<lparr>diffPixels := 0, diffPercentage := Num 0,
             metadata := (metadata example_result) \<lparr>threshold := 0.9\<rparr>\<rparr>)
     \<le> diffPixels example_result \<and>
   diffPixels example_result = 1"
  using raising_threshold_never_flags_more [OF example_run example_run_tolerant]
  by (simp add: example_params_def example_result_def)

subsection \<open>C9: comparing an image with itself\<close>

text \<open>
  Claim C9 says that a readable, decodable image with a positive footprint, compared
  with itself, gives 0 differing pixels and a difference percentage of 0.  The code does
  not reach that result for an image without an alpha channel: the comment of line 60
  announces a conversion to RGBA and lines 72 and 89 assume 4 channels, but lines 61--69
  take the raw pixels as they are, 3 bytes per pixel, and the pixel difference refuses
  buffers that do not hold 4 bytes per pixel.  The 2 by 1 image \<open>photo.jpg\<close> compared
  with itself makes compareImages throw at the pixel-difference step.
\<close>

theorem self_comparison_without_alpha_fails:
  "image1Path photo_params = image2Path photo_params \<and>
   readFileSync example_fs (image1Path photo_params) = Inr [4] \<and>
   sharp_metadata example_libs [4] = Inr \<lparr>info_width = Some 2, info_height = Some 1\<rparr> \<and>
   sharp_resize_raw example_libs [4] 2 1 = Inr [10, 10, 10, 10, 10, 10] \<and>
   fst (compareImages example_libs example_fs photo_params) =
     Inl (ImageComparisonFailed Diff ''Image data size does not match width/height.'')"
  by code_simp

subsection \<open>C10: no output path, no write\<close>

text \<open>
  Claim C10.  When the request has no output path, compareImages leaves the file system
  as it was, whatever the outcome.
\<close>

theorem no_output_path_no_write:
  assumes "outputPath p = None"
  shows "snd (compareImages L fs p) = fs"
  using assms by (simp add: compareImages_no_output)

theorem no_output_path_no_write_witness:
  "outputPath (example_params 0.1 None) = None \<and>
   fst (compareImages example_libs example_fs (example_params 0.1 None)) = Inr example_result \<and>
   snd (compareImages example_libs example_fs (example_params 0.1 None)) = example_fs"
proof -
  have h: "outputPath (example_params 0.1 None) = None"
    by (simp add: example_params_def)
  show ?thesis
    using h no_output_path_no_write [OF h, of example_libs example_fs] example_run
    by simp
qed

end
